theory Spec2Isabelle
  imports Main "HOL-Library.AList" "HOL-Library.Sublist"
begin

section \<open>The IR: operations, results, attributes\<close>

text \<open>
  An operation has results (only their types matter here), operands, a dictionary of
  named attributes and nested regions; a region is a list of blocks and a block a list
  of operations. \<open>opId\<close> stands for the identity of the \<^verbatim>\<open>Operation *\<close>, which is what
  an \<^verbatim>\<open>OpResult\<close> refers to.
\<close>

datatype mtype = TensorType | OtherType

datatype attribute = BoolArrayAttr "bool list" | StringAttr string

datatype val = OpResultVal nat nat | BlockArgumentVal nat

datatype operation = Operation
  (opId: nat)
  (opName: string)
  (opOperands: "val list")
  (opResultTypes: "mtype list")
  (opAttrs: "(string \<times> attribute) list")
  (opRegions: "operation list list list")

type_synonym block = "operation list"
type_synonym region = "block list"

datatype op_result = OpResult (getOwner: nat) (getResultNumber: nat) (getType: mtype)

definition isa_TensorType :: "mtype \<Rightarrow> bool" where
  "isa_TensorType t = (t = TensorType)"

definition getOpResults :: "operation \<Rightarrow> op_result list" where
  "getOpResults op =
     map (\<lambda>i. OpResult (opId op) i (opResultTypes op ! i)) [0..<length (opResultTypes op)]"

definition hasAttr :: "operation \<Rightarrow> string \<Rightarrow> bool" where
  "hasAttr op name = (map_of (opAttrs op) name \<noteq> None)"

definition getAttr :: "operation \<Rightarrow> string \<Rightarrow> attribute option" where
  "getAttr op name = map_of (opAttrs op) name"

fun setAttr :: "operation \<Rightarrow> string \<Rightarrow> attribute \<Rightarrow> operation" where
  "setAttr (Operation i n os ts as rs) name v = Operation i n os ts (AList.update name v as) rs"

fun setOperands :: "operation \<Rightarrow> val list \<Rightarrow> operation" where
  "setOperands (Operation i n os ts as rs) os' = Operation i n os' ts as rs"

fun setRegions :: "operation \<Rightarrow> region list \<Rightarrow> operation" where
  "setRegions (Operation i n os ts as rs) rs' = Operation i n os ts as rs'"

text \<open>
  Modelled from the spec: the reserved attribute key. The constant
  \<^verbatim>\<open>BufferizationDialect::kEscapeAttrName\<close> is declared outside \<^verbatim>\<open>TensorCopyInsertion.cpp\<close>; the
  specification calls the attribute \<open>escape\<close>. No result below depends on its spelling.
\<close>

definition kEscapeAttrName :: string where
  "kEscapeAttrName = ''escape''"

section \<open>Results of calls and of the walk\<close>

datatype logical_result = Success | Failure

definition failure :: "bool \<Rightarrow> logical_result" where
  "failure isFailure = (if isFailure then Failure else Success)"

definition failed :: "logical_result \<Rightarrow> bool" where
  "failed r = (r = Failure)"

datatype walk_result = Advance | Skip | Interrupt

definition wasInterrupted :: "walk_result \<Rightarrow> bool" where
  "wasInterrupted r = (r = Interrupt)"

section \<open>The capability interface, the options and the analysis state\<close>

text \<open>
  \<^verbatim>\<open>resolveConflicts(rewriter, state)\<close> is implemented per operation kind, outside
  \<^verbatim>\<open>TensorCopyInsertion.cpp\<close>. Its effect through the rewriter is the value it returns here: the
  operations it created at the insertion point (immediately before the operation being
  fixed, in call order) and the operands of the operation after redirecting them. The
  type parameter \<open>'s\<close> is what the routine reads from the analysis state.
\<close>

record rewrite =
  inserted :: "operation list"
  newOperands :: "val list"

record 's bufferizable_op =
  bufferizesToAllocation :: "op_result \<Rightarrow> bool"
  resolveConflicts :: "'s \<Rightarrow> operation \<Rightarrow> logical_result \<times> rewrite"

record 's options =
  allowReturnAllocs :: bool
  bufferizeFunctionBoundaries :: bool
  createDeallocs :: bool
  testAnalysisOnly :: bool
  dynCastBufferizableOp :: "operation \<Rightarrow> 's bufferizable_op option"

record 's analysis_state =
  getOptions :: "'s options"
  isTensorYielded :: "op_result \<Rightarrow> bool"
  aliasInfo :: 's

section \<open>The escape annotator (lines 54--72 of the source)\<close>

text \<open>
  The loop over the results, with its two accumulators \<^verbatim>\<open>escapeAttrValue\<close> and
  \<^verbatim>\<open>foundTensorResult\<close>.
\<close>

fun escapeLoop :: "'s bufferizable_op \<Rightarrow> 's analysis_state \<Rightarrow> op_result list
    \<Rightarrow> bool list \<times> bool \<Rightarrow> bool list \<times> bool" where
  "escapeLoop bufferizableOp state [] (escapeAttrValue, foundTensorResult) =
     (escapeAttrValue, foundTensorResult)"
| "escapeLoop bufferizableOp state (opResult # rest) (escapeAttrValue, foundTensorResult) =
     (if \<not> isa_TensorType (getType opResult) \<or>
         \<not> bufferizesToAllocation bufferizableOp opResult
      then escapeLoop bufferizableOp state rest (escapeAttrValue @ [False], foundTensorResult)
      else
        let escape = (\<not> createDeallocs (getOptions state) \<or> isTensorYielded state opResult)
        in escapeLoop bufferizableOp state rest (escapeAttrValue @ [escape], True))"

definition annotateEscape :: "'s bufferizable_op \<Rightarrow> 's analysis_state \<Rightarrow> operation \<Rightarrow> operation" where
  "annotateEscape bufferizableOp state op =
     (if \<not> hasAttr op kEscapeAttrName then
        (case escapeLoop bufferizableOp state (getOpResults op) ([], False) of
           (escapeAttrValue, foundTensorResult) \<Rightarrow>
             if foundTensorResult
             then setAttr op kEscapeAttrName (BoolArrayAttr escapeAttrValue)
             else op)
      else op)"

section \<open>The callback of the walk (lines 49--81 of the source)\<close>

text \<open>
  The callback returns the walk result together with what it did to the IR: the
  operations inserted immediately before the operation, and the operation itself after
  annotation and operand rewriting.
\<close>

definition resolveCallback :: "'s analysis_state \<Rightarrow> operation
    \<Rightarrow> walk_result \<times> operation list \<times> operation" where
  "resolveCallback state op =
     (case dynCastBufferizableOp (getOptions state) op of
        None \<Rightarrow> (Skip, [], op)
      | Some bufferizableOp \<Rightarrow>
          let op1 = annotateEscape bufferizableOp state op in
          (case resolveConflicts bufferizableOp (aliasInfo state) op1 of
             (res, rw) \<Rightarrow>
               if failed res
               then (Interrupt, inserted rw, setOperands op1 (newOperands rw))
               else (Advance, inserted rw, setOperands op1 (newOperands rw))))"

section \<open>The walk\<close>

text \<open>
  Modelled from the spec: \<^verbatim>\<open>Operation::walk\<close> is defined outside
  \<^verbatim>\<open>TensorCopyInsertion.cpp\<close>, and the call passes no explicit order. Following the specification, the traversal is
  pre-order: the callback runs on an operation before the operations nested in its
  regions, regions, blocks and operations are taken left to right, a skipped operation
  is not processed but its regions are still entered, and an interrupt ends the whole
  walk at once. Each function returns the walk result, the IR as rewritten so far, and
  the operations on which the callback was invoked, in order. For one operation the
  rewritten IR is the list that takes its place in its block: the inserted operations
  followed by the operation itself. The regions entered are those the operation has
  when it is reached; the rewrites modelled here do not touch them.
\<close>

fun walk :: "(operation \<Rightarrow> walk_result \<times> operation list \<times> operation) \<Rightarrow> operation
    \<Rightarrow> walk_result \<times> operation list \<times> operation list"
and walk_regions :: "(operation \<Rightarrow> walk_result \<times> operation list \<times> operation) \<Rightarrow> region list
    \<Rightarrow> walk_result \<times> region list \<times> operation list"
and walk_blocks :: "(operation \<Rightarrow> walk_result \<times> operation list \<times> operation) \<Rightarrow> block list
    \<Rightarrow> walk_result \<times> block list \<times> operation list"
and walk_ops :: "(operation \<Rightarrow> walk_result \<times> operation list \<times> operation) \<Rightarrow> operation list
    \<Rightarrow> walk_result \<times> operation list \<times> operation list"
where
  "walk callback (Operation i n os ts as rs) =
     (case callback (Operation i n os ts as rs) of
        (Interrupt, ins, op') \<Rightarrow> (Interrupt, ins @ [op'], [Operation i n os ts as rs])
      | (_, ins, op') \<Rightarrow>
          (case walk_regions callback rs of
             (r, rs', seen) \<Rightarrow>
               (r, ins @ [setRegions op' rs'], Operation i n os ts as rs # seen)))"
| "walk_regions callback [] = (Advance, [], [])"
| "walk_regions callback (rg # rgs) =
     (case walk_blocks callback rg of
        (Interrupt, rg', seen) \<Rightarrow> (Interrupt, rg' # rgs, seen)
      | (_, rg', seen) \<Rightarrow>
          (case walk_regions callback rgs of
             (r, rgs', seen') \<Rightarrow> (r, rg' # rgs', seen @ seen')))"
| "walk_blocks callback [] = (Advance, [], [])"
| "walk_blocks callback (b # bs) =
     (case walk_ops callback b of
        (Interrupt, b', seen) \<Rightarrow> (Interrupt, b' # bs, seen)
      | (_, b', seen) \<Rightarrow>
          (case walk_blocks callback bs of
             (r, bs', seen') \<Rightarrow> (r, b' # bs', seen @ seen')))"
| "walk_ops callback [] = (Advance, [], [])"
| "walk_ops callback (x # xs) =
     (case walk callback x of
        (Interrupt, xs', seen) \<Rightarrow> (Interrupt, xs' @ xs, seen)
      | (_, xs', seen) \<Rightarrow>
          (case walk_ops callback xs of
             (r, xs'', seen') \<Rightarrow> (r, xs' @ xs'', seen @ seen')))"

section \<open>The state-based entry point (lines 43--84 of the source)\<close>

text \<open>
  The value returned is the \<^verbatim>\<open>LogicalResult\<close>; the second component is the IR after the
  call (what stands in the place of the root), the third the operations the callback was
  invoked on, in order.
\<close>

definition insertTensorCopies :: "operation \<Rightarrow> 's analysis_state
    \<Rightarrow> logical_result \<times> operation list \<times> operation list" where
  "insertTensorCopies op state =
     (case walk (resolveCallback state) op of
        (result, ir, seen) \<Rightarrow> (failure (wasInterrupted result), ir, seen))"

section \<open>The options-based entry point (lines 23--41 of the source)\<close>

text \<open>
  The analyses, the constructor of the analysis state and \<^verbatim>\<open>cast<ModuleOp>\<close> are defined
  outside \<^verbatim>\<open>TensorCopyInsertion.cpp\<close>; they are parameters. An analysis may change the
  IR and the state and reports success or failure. \<open>castModuleOp\<close> is the module
  operation the cast yields; nothing is assumed about it.
\<close>

record 's collaborators =
  OneShotAnalysisState :: "operation \<Rightarrow> 's options \<Rightarrow> 's analysis_state"
  castModuleOp :: "operation \<Rightarrow> operation"
  analyzeOp :: "operation \<Rightarrow> 's analysis_state \<Rightarrow> logical_result \<times> operation \<times> 's analysis_state"
  analyzeModuleOp :: "operation \<Rightarrow> 's analysis_state \<Rightarrow> logical_result \<times> operation \<times> 's analysis_state"

text \<open>Lines 29--35: the analysis that runs, chosen by \<open>bufferizeFunctionBoundaries\<close>.\<close>

definition runAnalysis :: "'s collaborators \<Rightarrow> operation \<Rightarrow> 's options \<Rightarrow> 's analysis_state
    \<Rightarrow> logical_result \<times> operation \<times> 's analysis_state" where
  "runAnalysis ext op options state =
     (if bufferizeFunctionBoundaries options
      then analyzeModuleOp ext (castModuleOp ext op) state
      else analyzeOp ext op state)"

definition insertTensorCopiesOptions :: "'s collaborators \<Rightarrow> operation \<Rightarrow> 's options
    \<Rightarrow> logical_result \<times> operation list \<times> operation list" where
  "insertTensorCopiesOptions ext op options =
     (let state = OneShotAnalysisState ext op options in
      case runAnalysis ext op options state of
        (res, op', state') \<Rightarrow>
          if failed res then (Failure, [op'], [])
          else if testAnalysisOnly options then (Success, [op'], [])
          else insertTensorCopies op' state')"

section \<open>Reference notions used in the statements\<close>

text \<open>The operations of a tree in pre-order: parents first, then left to right.\<close>

fun preorder :: "operation \<Rightarrow> operation list"
and preorder_regions :: "region list \<Rightarrow> operation list"
and preorder_blocks :: "block list \<Rightarrow> operation list"
and preorder_ops :: "operation list \<Rightarrow> operation list"
where
  "preorder (Operation i n os ts as rs) = Operation i n os ts as rs # preorder_regions rs"
| "preorder_regions [] = []"
| "preorder_regions (rg # rgs) = preorder_blocks rg @ preorder_regions rgs"
| "preorder_blocks [] = []"
| "preorder_blocks (b # bs) = preorder_ops b @ preorder_blocks bs"
| "preorder_ops [] = []"
| "preorder_ops (x # xs) = preorder x @ preorder_ops xs"

text \<open>A result qualifies when it is tensor-typed and bufferizes to a fresh allocation.\<close>

definition qualifies :: "'s bufferizable_op \<Rightarrow> op_result \<Rightarrow> bool" where
  "qualifies bufferizableOp opResult =
     (isa_TensorType (getType opResult) \<and> bufferizesToAllocation bufferizableOp opResult)"

text \<open>The conflict resolution of an operation fails: it is bufferizable and its
  \<^verbatim>\<open>resolveConflicts\<close>, called on the annotated operation, reports failure.\<close>

definition resolutionFails :: "'s analysis_state \<Rightarrow> operation \<Rightarrow> bool" where
  "resolutionFails state op =
     (case dynCastBufferizableOp (getOptions state) op of
        None \<Rightarrow> False
      | Some bufferizableOp \<Rightarrow>
          failed (fst (resolveConflicts bufferizableOp (aliasInfo state)
                         (annotateEscape bufferizableOp state op))))"

text \<open>The elements of a list up to and including the first one that satisfies \<open>P\<close>.\<close>

fun upToFirst :: "('a \<Rightarrow> bool) \<Rightarrow> 'a list \<Rightarrow> 'a list" where
  "upToFirst P [] = []"
| "upToFirst P (x # xs) = (if P x then [x] else x # upToFirst P xs)"

text \<open>The entry the loop records for one result.\<close>

definition escapeEntry :: "'s bufferizable_op \<Rightarrow> 's analysis_state \<Rightarrow> op_result \<Rightarrow> bool" where
  "escapeEntry bufferizableOp state opResult =
     (qualifies bufferizableOp opResult \<and>
      (\<not> createDeallocs (getOptions state) \<or> isTensorYielded state opResult))"

text \<open>
  The IR in which the callback's rewrites have been applied to the first \<open>k\<close> operations
  in pre-order and to no other: the inserted operations stand before the operation, and
  an operation beyond the first \<open>k\<close> is left as it is. The number returned is what is
  left of \<open>k\<close>. The callback's walk result is ignored.
\<close>

fun rewriteFirst :: "(operation \<Rightarrow> walk_result \<times> operation list \<times> operation) \<Rightarrow> nat \<Rightarrow> operation
    \<Rightarrow> nat \<times> operation list"
and rewriteFirst_regions :: "(operation \<Rightarrow> walk_result \<times> operation list \<times> operation) \<Rightarrow> nat \<Rightarrow> region list
    \<Rightarrow> nat \<times> region list"
and rewriteFirst_blocks :: "(operation \<Rightarrow> walk_result \<times> operation list \<times> operation) \<Rightarrow> nat \<Rightarrow> block list
    \<Rightarrow> nat \<times> block list"
and rewriteFirst_ops :: "(operation \<Rightarrow> walk_result \<times> operation list \<times> operation) \<Rightarrow> nat \<Rightarrow> operation list
    \<Rightarrow> nat \<times> operation list"
where
  "rewriteFirst callback k (Operation i n os ts as rs) =
     (if k = 0 then (0, [Operation i n os ts as rs])
      else
        (case callback (Operation i n os ts as rs) of
           (_, ins, op') \<Rightarrow>
             (case rewriteFirst_regions callback (k - 1) rs of
                (k', rs') \<Rightarrow> (k', ins @ [setRegions op' rs']))))"
| "rewriteFirst_regions callback k [] = (k, [])"
| "rewriteFirst_regions callback k (rg # rgs) =
     (case rewriteFirst_blocks callback k rg of
        (k', rg') \<Rightarrow>
          (case rewriteFirst_regions callback k' rgs of
             (k'', rgs') \<Rightarrow> (k'', rg' # rgs')))"
| "rewriteFirst_blocks callback k [] = (k, [])"
| "rewriteFirst_blocks callback k (b # bs) =
     (case rewriteFirst_ops callback k b of
        (k', b') \<Rightarrow>
          (case rewriteFirst_blocks callback k' bs of
             (k'', bs') \<Rightarrow> (k'', b' # bs')))"
| "rewriteFirst_ops callback k [] = (k, [])"
| "rewriteFirst_ops callback k (x # xs) =
     (case rewriteFirst callback k x of
        (k', xs') \<Rightarrow>
          (case rewriteFirst_ops callback k' xs of
             (k'', xs'') \<Rightarrow> (k'', xs' @ xs'')))"

section \<open>A small program used to instantiate the theorems\<close>

text \<open>
  Two implementations of the interface: one resolves its conflict by inserting a copy
  before the operation and redirecting the operand to it, the other cannot resolve.
  Modules and functions do not implement the interface.
\<close>

definition exCopying :: "unit bufferizable_op" where
  "exCopying =
     \<lparr>bufferizesToAllocation = (\<lambda>r. getResultNumber r = 0),
      resolveConflicts = (\<lambda>s op.
        (Success,
         \<lparr>inserted = [Operation (100 + opId op) ''bufferization.alloc_tensor''
                         (opOperands op) [TensorType] [] []],
          newOperands = [OpResultVal (100 + opId op) 0]\<rparr>))\<rparr>"

definition exFailing :: "unit bufferizable_op" where
  "exFailing =
     \<lparr>bufferizesToAllocation = (\<lambda>r. False),
      resolveConflicts = (\<lambda>s op. (Failure, \<lparr>inserted = [], newOperands = opOperands op\<rparr>))\<rparr>"

definition exOptions :: "bool \<Rightarrow> bool \<Rightarrow> bool \<Rightarrow> unit options" where
  "exOptions functionBoundaries deallocs analysisOnly =
     \<lparr>allowReturnAllocs = False,
      bufferizeFunctionBoundaries = functionBoundaries,
      createDeallocs = deallocs,
      testAnalysisOnly = analysisOnly,
      dynCastBufferizableOp = (\<lambda>op.
        if opName op = ''test.conflict'' then Some exFailing
        else if opName op = ''builtin.module'' \<or> opName op = ''func.func'' then None
        else Some exCopying)\<rparr>"

definition exState :: "bool \<Rightarrow> unit analysis_state" where
  "exState deallocs =
     \<lparr>getOptions = exOptions False deallocs False,
      isTensorYielded = (\<lambda>r. getOwner r = 5),
      aliasInfo = ()\<rparr>"

definition exAlloc :: operation where
  "exAlloc = Operation 2 ''test.alloc'' [BlockArgumentVal 0]
               [TensorType, OtherType, TensorType] [] []"

definition exAnnotated :: operation where
  "exAnnotated = Operation 3 ''test.alloc'' [] [TensorType]
                   [(kEscapeAttrName, BoolArrayAttr [False])] []"

definition exConflict :: operation where
  "exConflict = Operation 4 ''test.conflict'' [] [] [] []"

definition exYielded :: operation where
  "exYielded = Operation 5 ''test.alloc'' [] [TensorType] [] []"

definition exScalar :: operation where
  "exScalar = Operation 6 ''test.constant'' [] [OtherType] [] []"

definition exFunc :: operation where
  "exFunc = Operation 1 ''func.func'' [] [] [] [[[exAlloc, exConflict, exYielded]]]"

definition exModule :: operation where
  "exModule = Operation 0 ''builtin.module'' [] [] [] [[[exFunc]]]"

definition exGoodFunc :: operation where
  "exGoodFunc = Operation 1 ''func.func'' [] [] [] [[[exAlloc, exYielded]]]"

definition exGoodModule :: operation where
  "exGoodModule = Operation 0 ''builtin.module'' [] [] [] [[[exGoodFunc]]]"

definition exExt :: "bool \<Rightarrow> unit collaborators" where
  "exExt ok =
     \<lparr>OneShotAnalysisState = (\<lambda>op opts.
        \<lparr>getOptions = opts, isTensorYielded = (\<lambda>r. False), aliasInfo = ()\<rparr>),
      castModuleOp = (\<lambda>op. op),
      analyzeOp = (\<lambda>op st. (failure (\<not> ok), op, st\<lparr>isTensorYielded := (\<lambda>r. getOwner r = 5)\<rparr>)),
      analyzeModuleOp = (\<lambda>op st. (failure (\<not> ok), op, st\<lparr>isTensorYielded := (\<lambda>r. getOwner r = 5)\<rparr>))\<rparr>"

text \<open>The callback interrupts the walk at an operation.\<close>

abbreviation interrupts :: "(operation \<Rightarrow> walk_result \<times> operation list \<times> operation) \<Rightarrow> operation \<Rightarrow> bool" where
  "interrupts callback x \<equiv> fst (callback x) = Interrupt"

section \<open>Attributes, operands and regions of an operation\<close>

lemma opAttrs_setOperands: "opAttrs (setOperands op os') = opAttrs op"
  by (cases op) simp

lemma opAttrs_setAttr: "opAttrs (setAttr op name v) = AList.update name v (opAttrs op)"
  by (cases op) simp

lemma getAttr_setAttr: "getAttr (setAttr op name v) name = Some v"
  by (simp add: getAttr_def opAttrs_setAttr update_conv')

lemma hasAttr_setAttr: "hasAttr (setAttr op name v) name"
  by (simp add: hasAttr_def opAttrs_setAttr update_conv')

lemma opRegions_setOperands: "opRegions (setOperands op os') = opRegions op"
  by (cases op) simp

lemma opRegions_setAttr: "opRegions (setAttr op name v) = opRegions op"
  by (cases op) simp

lemma setRegions_same: "opRegions op' = rs \<Longrightarrow> setRegions op' rs = op'"
  by (cases op') simp

section \<open>The escape annotator\<close>

text \<open>The loop appends one entry per result and remembers whether a result qualified.\<close>

lemma escapeLoop_eq:
  "escapeLoop bop st rs (vals, found) =
     (vals @ map (escapeEntry bop st) rs, found \<or> (\<exists>r\<in>set rs. qualifies bop r))"
  by (induction rs arbitrary: vals found) (auto simp: escapeEntry_def qualifies_def Let_def)

lemma annotateEscape_eq:
  "annotateEscape bop st op =
     (if \<not> hasAttr op kEscapeAttrName \<and> (\<exists>r\<in>set (getOpResults op). qualifies bop r)
      then setAttr op kEscapeAttrName (BoolArrayAttr (map (escapeEntry bop st) (getOpResults op)))
      else op)"
  by (simp add: annotateEscape_def escapeLoop_eq)

lemma opRegions_annotateEscape: "opRegions (annotateEscape bop st op) = opRegions op"
  by (simp add: annotateEscape_eq opRegions_setAttr)

text \<open>Conflict resolution rewrites operands only: the attributes after the callback are
  those the annotator left.\<close>

lemma resolveCallback_attrs:
  assumes "dynCastBufferizableOp (getOptions st) op = Some bop"
  shows "opAttrs (snd (snd (resolveCallback st op))) = opAttrs (annotateEscape bop st op)"
  using assms
  by (auto simp: resolveCallback_def Let_def opAttrs_setOperands split: prod.splits)

lemma resolveCallback_regions: "opRegions (snd (snd (resolveCallback st x))) = opRegions x"
  by (auto simp: resolveCallback_def Let_def opRegions_setOperands opRegions_annotateEscape
      split: option.splits prod.splits)

lemma resolveCallback_interrupts:
  "interrupts (resolveCallback st) x = resolutionFails st x"
  by (auto simp: resolveCallback_def resolutionFails_def Let_def split: option.splits prod.splits)

section \<open>The walk: order of the visits and effect on the IR\<close>

lemma upToFirst_append:
  "upToFirst P (xs @ ys) = (if \<exists>x\<in>set xs. P x then upToFirst P xs else xs @ upToFirst P ys)"
  by (induction xs) auto

lemma upToFirst_none: "\<forall>x\<in>set xs. \<not> P x \<Longrightarrow> upToFirst P xs = xs"
  by (induction xs) auto

lemma prefix_upToFirst: "prefix (upToFirst P xs) xs"
  by (induction xs) auto

lemma walk_seen_result:
  "fst (walk cb op) = (if \<exists>x\<in>set (preorder op). interrupts cb x then Interrupt else Advance) \<and>
   snd (snd (walk cb op)) = upToFirst (interrupts cb) (preorder op)"
  "fst (walk_regions cb rgs) = (if \<exists>x\<in>set (preorder_regions rgs). interrupts cb x then Interrupt else Advance) \<and>
   snd (snd (walk_regions cb rgs)) = upToFirst (interrupts cb) (preorder_regions rgs)"
  "fst (walk_blocks cb bs) = (if \<exists>x\<in>set (preorder_blocks bs). interrupts cb x then Interrupt else Advance) \<and>
   snd (snd (walk_blocks cb bs)) = upToFirst (interrupts cb) (preorder_blocks bs)"
  "fst (walk_ops cb xs) = (if \<exists>x\<in>set (preorder_ops xs). interrupts cb x then Interrupt else Advance) \<and>
   snd (snd (walk_ops cb xs)) = upToFirst (interrupts cb) (preorder_ops xs)"
proof (induction cb op and cb rgs and cb bs and cb xs rule: walk_walk_regions_walk_blocks_walk_ops.induct)
  case (1 callback i n os ts as rs)
  then show ?case
    by (auto split: prod.splits walk_result.splits if_splits)
next
  case (2 callback)
  then show ?case by simp
next
  case (3 callback rg rgs)
  then show ?case
    by (auto simp: upToFirst_append upToFirst_none split: prod.splits walk_result.splits if_splits)
next
  case (4 callback)
  then show ?case by simp
next
  case (5 callback b bs)
  then show ?case
    by (auto simp: upToFirst_append upToFirst_none split: prod.splits walk_result.splits if_splits)
next
  case (6 callback)
  then show ?case by simp
next
  case (7 callback x xs)
  then show ?case
    by (auto simp: upToFirst_append upToFirst_none split: prod.splits walk_result.splits if_splits)
qed

lemma rewriteFirst_op_zero: "rewriteFirst cb 0 op = (0, [op])"
  by (cases op) simp

lemma rewriteFirst_ops_zero: "rewriteFirst_ops cb 0 xs = (0, xs)"
  by (induction xs) (simp_all add: rewriteFirst_op_zero)

lemma rewriteFirst_blocks_zero: "rewriteFirst_blocks cb 0 bs = (0, bs)"
  by (induction bs) (simp_all add: rewriteFirst_ops_zero)

lemma rewriteFirst_regions_zero: "rewriteFirst_regions cb 0 rgs = (0, rgs)"
  by (induction rgs) (simp_all add: rewriteFirst_blocks_zero)

lemma walk_rewriteFirst:
  assumes keep: "\<And>x. opRegions (snd (snd (cb x))) = opRegions x"
  shows
  "(fst (walk cb op) = Interrupt \<longrightarrow>
      rewriteFirst cb (length (snd (snd (walk cb op)))) op = (0, fst (snd (walk cb op)))) \<and>
   (fst (walk cb op) \<noteq> Interrupt \<longrightarrow>
      (\<forall>m. rewriteFirst cb (length (snd (snd (walk cb op))) + m) op = (m, fst (snd (walk cb op)))))"
  "(fst (walk_regions cb rgs) = Interrupt \<longrightarrow>
      rewriteFirst_regions cb (length (snd (snd (walk_regions cb rgs)))) rgs = (0, fst (snd (walk_regions cb rgs)))) \<and>
   (fst (walk_regions cb rgs) \<noteq> Interrupt \<longrightarrow>
      (\<forall>m. rewriteFirst_regions cb (length (snd (snd (walk_regions cb rgs))) + m) rgs = (m, fst (snd (walk_regions cb rgs)))))"
  "(fst (walk_blocks cb bs) = Interrupt \<longrightarrow>
      rewriteFirst_blocks cb (length (snd (snd (walk_blocks cb bs)))) bs = (0, fst (snd (walk_blocks cb bs)))) \<and>
   (fst (walk_blocks cb bs) \<noteq> Interrupt \<longrightarrow>
      (\<forall>m. rewriteFirst_blocks cb (length (snd (snd (walk_blocks cb bs))) + m) bs = (m, fst (snd (walk_blocks cb bs)))))"
  "(fst (walk_ops cb xs) = Interrupt \<longrightarrow>
      rewriteFirst_ops cb (length (snd (snd (walk_ops cb xs)))) xs = (0, fst (snd (walk_ops cb xs)))) \<and>
   (fst (walk_ops cb xs) \<noteq> Interrupt \<longrightarrow>
      (\<forall>m. rewriteFirst_ops cb (length (snd (snd (walk_ops cb xs))) + m) xs = (m, fst (snd (walk_ops cb xs)))))"
  using keep
proof (induction cb op and cb rgs and cb bs and cb xs rule: walk_walk_regions_walk_blocks_walk_ops.induct)
  case (1 callback i n os ts as rs)
  obtain w ins op' where cb: "callback (Operation i n os ts as rs) = (w, ins, op')"
    by (cases "callback (Operation i n os ts as rs)") auto
  have regs: "opRegions op' = rs"
    using "1.prems"[of "Operation i n os ts as rs"] cb by simp
  show ?case
  proof (cases "w = Interrupt")
    case True
    with cb regs show ?thesis
      by (simp add: rewriteFirst_regions_zero setRegions_same)
  next
    case False
    obtain r rs' seen where wr: "walk_regions callback rs = (r, rs', seen)"
      by (cases "walk_regions callback rs") auto
    have ih: "(r = Interrupt \<longrightarrow> rewriteFirst_regions callback (length seen) rs = (0, rs')) \<and>
              (r \<noteq> Interrupt \<longrightarrow> (\<forall>m. rewriteFirst_regions callback (length seen + m) rs = (m, rs')))"
      using "1.IH"(1)[of w "(ins, op')" ins op'] "1.IH"(2)[of w "(ins, op')" ins op']
        cb "1.prems" wr False
      by (cases w) auto
    from False cb wr ih show ?thesis
      by (cases w) auto
  qed
next
  case (2 callback)
  then show ?case by simp
next
  case (3 callback rg rgs)
  obtain w out seen where wx: "walk_blocks callback rg = (w, out, seen)"
    by (cases "walk_blocks callback rg") auto
  have ih1: "(w = Interrupt \<longrightarrow> rewriteFirst_blocks callback (length seen) rg = (0, out)) \<and>
             (w \<noteq> Interrupt \<longrightarrow> (\<forall>m. rewriteFirst_blocks callback (length seen + m) rg = (m, out)))"
    using "3.IH"(1)[OF "3.prems"] wx by simp
  show ?case
  proof (cases "w = Interrupt")
    case True
    with wx ih1 show ?thesis
      by (simp add: rewriteFirst_regions_zero)
  next
    case False
    obtain r out' seen' where wxs: "walk_regions callback rgs = (r, out', seen')"
      by (cases "walk_regions callback rgs") auto
    have ih2: "(r = Interrupt \<longrightarrow> rewriteFirst_regions callback (length seen') rgs = (0, out')) \<and>
               (r \<noteq> Interrupt \<longrightarrow> (\<forall>m. rewriteFirst_regions callback (length seen' + m) rgs = (m, out')))"
      using "3.IH"(2)[of w "(out, seen)" out seen] "3.IH"(3)[of w "(out, seen)" out seen]
        wx "3.prems" wxs False
      by (cases w) auto
    from False wx wxs ih1 ih2 show ?thesis
      by (cases w) (auto simp: add.assoc)
  qed
next
  case (4 callback)
  then show ?case by simp
next
  case (5 callback b bs)
  obtain w out seen where wx: "walk_ops callback b = (w, out, seen)"
    by (cases "walk_ops callback b") auto
  have ih1: "(w = Interrupt \<longrightarrow> rewriteFirst_ops callback (length seen) b = (0, out)) \<and>
             (w \<noteq> Interrupt \<longrightarrow> (\<forall>m. rewriteFirst_ops callback (length seen + m) b = (m, out)))"
    using "5.IH"(1)[OF "5.prems"] wx by simp
  show ?case
  proof (cases "w = Interrupt")
    case True
    with wx ih1 show ?thesis
      by (simp add: rewriteFirst_blocks_zero)
  next
    case False
    obtain r out' seen' where wxs: "walk_blocks callback bs = (r, out', seen')"
      by (cases "walk_blocks callback bs") auto
    have ih2: "(r = Interrupt \<longrightarrow> rewriteFirst_blocks callback (length seen') bs = (0, out')) \<and>
               (r \<noteq> Interrupt \<longrightarrow> (\<forall>m. rewriteFirst_blocks callback (length seen' + m) bs = (m, out')))"
      using "5.IH"(2)[of w "(out, seen)" out seen] "5.IH"(3)[of w "(out, seen)" out seen]
        wx "5.prems" wxs False
      by (cases w) auto
    from False wx wxs ih1 ih2 show ?thesis
      by (cases w) (auto simp: add.assoc)
  qed
next
  case (6 callback)
  then show ?case by simp
next
  case (7 callback x xs)
  obtain w out seen where wx: "walk callback x = (w, out, seen)"
    by (cases "walk callback x") auto
  have ih1: "(w = Interrupt \<longrightarrow> rewriteFirst callback (length seen) x = (0, out)) \<and>
             (w \<noteq> Interrupt \<longrightarrow> (\<forall>m. rewriteFirst callback (length seen + m) x = (m, out)))"
    using "7.IH"(1)[OF "7.prems"] wx by simp
  show ?case
  proof (cases "w = Interrupt")
    case True
    with wx ih1 show ?thesis
      by (simp add: rewriteFirst_ops_zero)
  next
    case False
    obtain r out' seen' where wxs: "walk_ops callback xs = (r, out', seen')"
      by (cases "walk_ops callback xs") auto
    have ih2: "(r = Interrupt \<longrightarrow> rewriteFirst_ops callback (length seen') xs = (0, out')) \<and>
               (r \<noteq> Interrupt \<longrightarrow> (\<forall>m. rewriteFirst_ops callback (length seen' + m) xs = (m, out')))"
      using "7.IH"(2)[of w "(out, seen)" out seen] "7.IH"(3)[of w "(out, seen)" out seen]
        wx "7.prems" wxs False
      by (cases w) auto
    from False wx wxs ih1 ih2 show ?thesis
      by (cases w) (auto simp: add.assoc)
  qed
qed

lemma insertTensorCopies_eq:
  "insertTensorCopies root state =
     (failure (wasInterrupted (fst (walk (resolveCallback state) root))),
      fst (snd (walk (resolveCallback state) root)),
      snd (snd (walk (resolveCallback state) root)))"
  by (simp add: insertTensorCopies_def split: prod.splits)

lemma insertTensorCopies_seen:
  "snd (snd (insertTensorCopies root state)) = upToFirst (resolutionFails state) (preorder root)"
  using walk_seen_result(1)[of "resolveCallback state" root]
  by (simp add: insertTensorCopies_eq resolveCallback_interrupts)

lemma insertTensorCopies_result:
  "fst (insertTensorCopies root state) =
     (if \<exists>x\<in>set (preorder root). resolutionFails state x then Failure else Success)"
  using walk_seen_result(1)[of "resolveCallback state" root]
  by (simp add: insertTensorCopies_eq resolveCallback_interrupts failure_def wasInterrupted_def)

lemma upToFirst_hit:
  "(\<exists>x\<in>set (upToFirst P xs). P x) = (\<exists>x\<in>set xs. P x)"
  by (induction xs) auto

section \<open>The example program, evaluated\<close>

lemmas ex_defs = exCopying_def exFailing_def exOptions_def exState_def exAlloc_def
  exAnnotated_def exConflict_def exYielded_def exScalar_def exFunc_def exModule_def
  exGoodFunc_def exGoodModule_def exExt_def

lemmas eval_defs = resolveCallback_def annotateEscape_def getOpResults_def hasAttr_def
  getAttr_def kEscapeAttrName_def isa_TensorType_def failed_def failure_def
  wasInterrupted_def insertTensorCopies_def resolutionFails_def
  insertTensorCopiesOptions_def runAnalysis_def

lemma ex_good_run:
  "insertTensorCopies exGoodModule (exState True) =
     (Success,
      [Operation 0 ''builtin.module'' [] [] []
        [[[Operation 1 ''func.func'' [] [] []
            [[[Operation 102 ''bufferization.alloc_tensor'' [BlockArgumentVal 0] [TensorType] [] [],
               Operation 2 ''test.alloc'' [OpResultVal 102 0] [TensorType, OtherType, TensorType]
                 [(''escape'', BoolArrayAttr [False, False, False])] [],
               Operation 105 ''bufferization.alloc_tensor'' [] [TensorType] [] [],
               Operation 5 ''test.alloc'' [OpResultVal 105 0] [TensorType]
                 [(''escape'', BoolArrayAttr [True])] []]]]]]]],
      [exGoodModule, exGoodFunc, exAlloc, exYielded])"
  by (simp add: ex_defs eval_defs upt_rec)

lemma ex_bad_run:
  "insertTensorCopies exModule (exState True) =
     (Failure,
      [Operation 0 ''builtin.module'' [] [] []
        [[[Operation 1 ''func.func'' [] [] []
            [[[Operation 102 ''bufferization.alloc_tensor'' [BlockArgumentVal 0] [TensorType] [] [],
               Operation 2 ''test.alloc'' [OpResultVal 102 0] [TensorType, OtherType, TensorType]
                 [(''escape'', BoolArrayAttr [False, False, False])] [],
               exConflict,
               exYielded]]]]]]],
      [exModule, exFunc, exAlloc, exConflict])"
  by (simp add: ex_defs eval_defs upt_rec)

lemma ex_good_preorder: "preorder exGoodModule = [exGoodModule, exGoodFunc, exAlloc, exYielded]"
  by (simp add: ex_defs)

lemma ex_bad_preorder: "preorder exModule = [exModule, exFunc, exAlloc, exConflict, exYielded]"
  by (simp add: ex_defs)

section \<open>Escape correctness\<close>

text \<open>
  Claim C1. Take an operation that implements the interface and carries no escape
  attribute when the callback reaches it, and a result of it (number \<open>i\<close>) that is
  tensor-typed and bufferizes to an allocation. The annotator attaches a boolean array
  under the escape key, the operation still carries it after the callback, and entry
  \<open>i\<close> of the array is true when \<open>createDeallocs\<close> is off, whatever the analysis says
  about the result, and equals \<open>isTensorYielded\<close> of the result when \<open>createDeallocs\<close>
  is on.
\<close>

theorem escape_entry_value:
  assumes "dynCastBufferizableOp (getOptions state) op = Some bufferizableOp"
    and "\<not> hasAttr op kEscapeAttrName"
    and "i < length (getOpResults op)"
    and "qualifies bufferizableOp (getOpResults op ! i)"
  shows "\<exists>escapeAttrValue.
           getAttr (annotateEscape bufferizableOp state op) kEscapeAttrName =
             Some (BoolArrayAttr escapeAttrValue) \<and>
           getAttr (snd (snd (resolveCallback state op))) kEscapeAttrName =
             Some (BoolArrayAttr escapeAttrValue) \<and>
           i < length escapeAttrValue \<and>
           (\<not> createDeallocs (getOptions state) \<longrightarrow> escapeAttrValue ! i = True) \<and>
           (createDeallocs (getOptions state) \<longrightarrow>
              escapeAttrValue ! i = isTensorYielded state (getOpResults op ! i))"
proof -
  have ex: "\<exists>r\<in>set (getOpResults op). qualifies bufferizableOp r"
    using assms(3,4) nth_mem by blast
  have same: "getAttr (snd (snd (resolveCallback state op))) kEscapeAttrName =
          getAttr (annotateEscape bufferizableOp state op) kEscapeAttrName"
    using resolveCallback_attrs[OF assms(1)] by (simp add: getAttr_def)
  have "getAttr (annotateEscape bufferizableOp state op) kEscapeAttrName =
          Some (BoolArrayAttr (map (escapeEntry bufferizableOp state) (getOpResults op)))"
    using assms(2) ex by (simp add: annotateEscape_eq getAttr_setAttr)
  with same show ?thesis
    using assms(3,4) by (simp add: escapeEntry_def)
qed

theorem escape_entry_value_witness:
  "dynCastBufferizableOp (getOptions (exState True)) exYielded = Some exCopying \<and>
   \<not> hasAttr exYielded kEscapeAttrName \<and>
   0 < length (getOpResults exYielded) \<and>
   qualifies exCopying (getOpResults exYielded ! 0) \<and>
   createDeallocs (getOptions (exState True)) \<and>
   isTensorYielded (exState True) (getOpResults exYielded ! 0) \<and>
   (\<exists>escapeAttrValue.
      getAttr (annotateEscape exCopying (exState True) exYielded) kEscapeAttrName =
        Some (BoolArrayAttr escapeAttrValue) \<and>
      getAttr (snd (snd (resolveCallback (exState True) exYielded))) kEscapeAttrName =
        Some (BoolArrayAttr escapeAttrValue) \<and>
      0 < length escapeAttrValue \<and>
      (\<not> createDeallocs (getOptions (exState True)) \<longrightarrow> escapeAttrValue ! 0 = True) \<and>
      (createDeallocs (getOptions (exState True)) \<longrightarrow>
         escapeAttrValue ! 0 = isTensorYielded (exState True) (getOpResults exYielded ! 0)))"
proof -
  have h1: "dynCastBufferizableOp (getOptions (exState True)) exYielded = Some exCopying"
    by (simp add: exState_def exOptions_def exYielded_def)
  have h2: "\<not> hasAttr exYielded kEscapeAttrName"
    by (simp add: hasAttr_def exYielded_def)
  have h3: "0 < length (getOpResults exYielded)"
    by (simp add: getOpResults_def exYielded_def)
  have h4: "qualifies exCopying (getOpResults exYielded ! 0)"
    by (simp add: qualifies_def isa_TensorType_def getOpResults_def exYielded_def exCopying_def)
  have h5: "createDeallocs (getOptions (exState True))"
    by (simp add: exState_def exOptions_def)
  have h6: "isTensorYielded (exState True) (getOpResults exYielded ! 0)"
    by (simp add: exState_def getOpResults_def exYielded_def)
  from escape_entry_value[OF h1 h2 h3 h4] h1 h2 h3 h4 h5 h6 show ?thesis
    by blast
qed

section \<open>Idempotence of the annotation\<close>

text \<open>
  Claim C4. An operation that already carries an escape attribute is returned by the
  annotator as it is, and its attribute dictionary is the same after the whole callback.
  Running the annotator a second time on its own output changes nothing, whether the
  first run attached an attribute or not.
\<close>

theorem escape_annotation_idempotent:
  "(hasAttr op kEscapeAttrName \<longrightarrow> annotateEscape bufferizableOp state op = op) \<and>
   annotateEscape bufferizableOp state (annotateEscape bufferizableOp state op) =
     annotateEscape bufferizableOp state op \<and>
   (hasAttr op kEscapeAttrName \<longrightarrow>
      opAttrs (snd (snd (resolveCallback state op))) = opAttrs op)"
proof (intro conjI impI)
  assume "hasAttr op kEscapeAttrName"
  then show "annotateEscape bufferizableOp state op = op"
    by (simp add: annotateEscape_eq)
next
  show "annotateEscape bufferizableOp state (annotateEscape bufferizableOp state op) =
          annotateEscape bufferizableOp state op"
  proof (cases "\<not> hasAttr op kEscapeAttrName \<and> (\<exists>r\<in>set (getOpResults op). qualifies bufferizableOp r)")
    case True
    then have "annotateEscape bufferizableOp state op =
        setAttr op kEscapeAttrName
          (BoolArrayAttr (map (escapeEntry bufferizableOp state) (getOpResults op)))"
      by (simp add: annotateEscape_eq)
    then show ?thesis
      by (simp add: annotateEscape_eq[of _ _ "setAttr _ _ _"] hasAttr_setAttr)
  next
    case False
    then have "annotateEscape bufferizableOp state op = op"
      by (auto simp: annotateEscape_eq)
    then show ?thesis by simp
  qed
next
  assume a: "hasAttr op kEscapeAttrName"
  show "opAttrs (snd (snd (resolveCallback state op))) = opAttrs op"
  proof (cases "dynCastBufferizableOp (getOptions state) op")
    case None
    then show ?thesis by (simp add: resolveCallback_def)
  next
    case (Some bop)
    from resolveCallback_attrs[OF Some] a show ?thesis
      by (simp add: annotateEscape_eq)
  qed
qed

theorem escape_annotation_idempotent_witness:
  "hasAttr exAnnotated kEscapeAttrName \<and>
   annotateEscape exCopying (exState False) exAnnotated = exAnnotated \<and>
   annotateEscape exCopying (exState False) (annotateEscape exCopying (exState False) exAnnotated) =
     annotateEscape exCopying (exState False) exAnnotated \<and>
   opAttrs (snd (snd (resolveCallback (exState False) exAnnotated))) =
     [(kEscapeAttrName, BoolArrayAttr [False])]"
proof -
  have h: "hasAttr exAnnotated kEscapeAttrName"
    by (simp add: hasAttr_def exAnnotated_def)
  have a: "opAttrs exAnnotated = [(kEscapeAttrName, BoolArrayAttr [False])]"
    by (simp add: exAnnotated_def)
  from escape_annotation_idempotent[of exAnnotated exCopying "exState False"] h a
  show ?thesis by simp
qed

section \<open>Presence and shape of the attribute\<close>

text \<open>
  Claim C5. Take an operation that implements the interface and carries no escape
  attribute. After the callback its attributes are those the annotator left, and it
  carries the escape attribute exactly when one of its results is tensor-typed and
  bufferizes to an allocation. The attribute is then a boolean array with one entry per
  result, in result order (the entries are \<open>escapeEntry\<close> mapped over the results), and
  the entry of every result that does not qualify is false. When no result qualifies the
  attribute dictionary is unchanged.
\<close>

theorem escape_attribute_presence:
  assumes "dynCastBufferizableOp (getOptions state) op = Some bufferizableOp"
    and "\<not> hasAttr op kEscapeAttrName"
  shows "opAttrs (snd (snd (resolveCallback state op))) =
           opAttrs (annotateEscape bufferizableOp state op) \<and>
         (hasAttr (snd (snd (resolveCallback state op))) kEscapeAttrName \<longleftrightarrow>
            (\<exists>r\<in>set (getOpResults op). qualifies bufferizableOp r)) \<and>
         ((\<exists>r\<in>set (getOpResults op). qualifies bufferizableOp r) \<longrightarrow>
            (\<exists>escapeAttrValue.
               getAttr (snd (snd (resolveCallback state op))) kEscapeAttrName =
                 Some (BoolArrayAttr escapeAttrValue) \<and>
               escapeAttrValue = map (escapeEntry bufferizableOp state) (getOpResults op) \<and>
               length escapeAttrValue = length (getOpResults op) \<and>
               (\<forall>i<length (getOpResults op).
                  \<not> qualifies bufferizableOp (getOpResults op ! i) \<longrightarrow>
                  escapeAttrValue ! i = False))) \<and>
         (\<not> (\<exists>r\<in>set (getOpResults op). qualifies bufferizableOp r) \<longrightarrow>
            opAttrs (snd (snd (resolveCallback state op))) = opAttrs op)"
proof -
  have attrs: "opAttrs (snd (snd (resolveCallback state op))) =
                 opAttrs (annotateEscape bufferizableOp state op)"
    by (rule resolveCallback_attrs[OF assms(1)])
  show ?thesis
  proof (cases "\<exists>r\<in>set (getOpResults op). qualifies bufferizableOp r")
    case True
    with assms(2) have ann: "annotateEscape bufferizableOp state op =
        setAttr op kEscapeAttrName
          (BoolArrayAttr (map (escapeEntry bufferizableOp state) (getOpResults op)))"
      by (simp add: annotateEscape_eq)
    have "getAttr (snd (snd (resolveCallback state op))) kEscapeAttrName =
        Some (BoolArrayAttr (map (escapeEntry bufferizableOp state) (getOpResults op)))"
      using attrs ann getAttr_setAttr by (simp add: getAttr_def)
    moreover have "hasAttr (snd (snd (resolveCallback state op))) kEscapeAttrName"
      using attrs ann hasAttr_setAttr[of op kEscapeAttrName] by (simp add: hasAttr_def)
    ultimately show ?thesis
      using True attrs by (simp add: escapeEntry_def)
  next
    case False
    then have "annotateEscape bufferizableOp state op = op"
      by (auto simp: annotateEscape_eq)
    with attrs assms(2) False show ?thesis
      by (simp add: hasAttr_def)
  qed
qed

theorem escape_attribute_presence_witness:
  "dynCastBufferizableOp (getOptions (exState False)) exAlloc = Some exCopying \<and>
   \<not> hasAttr exAlloc kEscapeAttrName \<and>
   (\<exists>r\<in>set (getOpResults exAlloc). qualifies exCopying r) \<and>
   hasAttr (snd (snd (resolveCallback (exState False) exAlloc))) kEscapeAttrName \<and>
   getAttr (snd (snd (resolveCallback (exState False) exAlloc))) kEscapeAttrName =
     Some (BoolArrayAttr [True, False, False]) \<and>
   dynCastBufferizableOp (getOptions (exState False)) exScalar = Some exCopying \<and>
   \<not> hasAttr exScalar kEscapeAttrName \<and>
   \<not> (\<exists>r\<in>set (getOpResults exScalar). qualifies exCopying r) \<and>
   \<not> hasAttr (snd (snd (resolveCallback (exState False) exScalar))) kEscapeAttrName \<and>
   opAttrs (snd (snd (resolveCallback (exState False) exScalar))) = []"
proof -
  have a1: "dynCastBufferizableOp (getOptions (exState False)) exAlloc = Some exCopying"
    by (simp add: exState_def exOptions_def exAlloc_def)
  have a2: "\<not> hasAttr exAlloc kEscapeAttrName"
    by (simp add: hasAttr_def exAlloc_def)
  have a3: "getOpResults exAlloc =
              [OpResult 2 0 TensorType, OpResult 2 1 OtherType, OpResult 2 2 TensorType]"
    by (simp add: getOpResults_def exAlloc_def upt_rec)
  have a4: "\<exists>r\<in>set (getOpResults exAlloc). qualifies exCopying r"
    by (simp add: a3 qualifies_def isa_TensorType_def exCopying_def)
  have a5: "map (escapeEntry exCopying (exState False)) (getOpResults exAlloc) = [True, False, False]"
    by (simp add: a3 escapeEntry_def qualifies_def isa_TensorType_def exCopying_def exState_def
        exOptions_def)
  have s1: "dynCastBufferizableOp (getOptions (exState False)) exScalar = Some exCopying"
    by (simp add: exState_def exOptions_def exScalar_def)
  have s2: "\<not> hasAttr exScalar kEscapeAttrName"
    by (simp add: hasAttr_def exScalar_def)
  have s3: "\<not> (\<exists>r\<in>set (getOpResults exScalar). qualifies exCopying r)"
    by (simp add: getOpResults_def exScalar_def qualifies_def isa_TensorType_def)
  have s4: "opAttrs exScalar = []"
    by (simp add: exScalar_def)
  from escape_attribute_presence[OF a1 a2, THEN conjunct2]
    escape_attribute_presence[OF s1 s2, THEN conjunct2]
    a1 a2 a4 a5 s1 s2 s3 s4
  show ?thesis by simp
qed

section \<open>Traversal order\<close>

text \<open>
  Claim C2. The operations on which the callback is invoked, in the order of invocation,
  form a prefix of the pre-order listing of the tree under the root (every operation
  before the operations nested in its regions, and left to right otherwise); when the
  entry point reports success they are the whole listing.
\<close>

theorem walk_visits_preorder:
  "prefix (snd (snd (insertTensorCopies root state))) (preorder root) \<and>
   (fst (insertTensorCopies root state) = Success \<longrightarrow>
      snd (snd (insertTensorCopies root state)) = preorder root)"
  by (auto simp: insertTensorCopies_seen insertTensorCopies_result prefix_upToFirst upToFirst_none)

theorem walk_visits_preorder_witness:
  "fst (insertTensorCopies exGoodModule (exState True)) = Success \<and>
   prefix (snd (snd (insertTensorCopies exGoodModule (exState True)))) (preorder exGoodModule) \<and>
   snd (snd (insertTensorCopies exGoodModule (exState True))) =
     [exGoodModule, exGoodFunc, exAlloc, exYielded]"
proof -
  have h: "fst (insertTensorCopies exGoodModule (exState True)) = Success"
    by (simp add: ex_good_run)
  from walk_visits_preorder[of exGoodModule "exState True"] h show ?thesis
    by (simp add: ex_good_preorder)
qed

section \<open>Failing fast\<close>

text \<open>
  Claim C3. The state-based entry point reports failure exactly when the conflict
  resolution of a visited operation fails. The operations visited are those of the
  pre-order listing up to and including the first one whose resolution fails, so no
  later operation is reached. The IR returned is the input with the callback's rewrites
  applied to the visited operations and to no other: what was rewritten before the
  failure stays rewritten, and the operations after it are as they were.
\<close>

theorem fail_fast:
  "(fst (insertTensorCopies root state) = Failure \<longleftrightarrow>
      (\<exists>x\<in>set (snd (snd (insertTensorCopies root state))). resolutionFails state x)) \<and>
   snd (snd (insertTensorCopies root state)) =
      upToFirst (resolutionFails state) (preorder root) \<and>
   fst (snd (insertTensorCopies root state)) =
      snd (rewriteFirst (resolveCallback state)
             (length (snd (snd (insertTensorCopies root state)))) root)"
proof (intro conjI)
  show "fst (insertTensorCopies root state) = Failure \<longleftrightarrow>
      (\<exists>x\<in>set (snd (snd (insertTensorCopies root state))). resolutionFails state x)"
    by (simp add: insertTensorCopies_seen insertTensorCopies_result upToFirst_hit)
next
  show "snd (snd (insertTensorCopies root state)) =
      upToFirst (resolutionFails state) (preorder root)"
    by (rule insertTensorCopies_seen)
next
  have "rewriteFirst (resolveCallback state)
          (length (snd (snd (walk (resolveCallback state) root)))) root =
        (0, fst (snd (walk (resolveCallback state) root)))"
  proof (cases "fst (walk (resolveCallback state) root) = Interrupt")
    case True
    with walk_rewriteFirst(1)[of "resolveCallback state" root, OF resolveCallback_regions]
    show ?thesis by simp
  next
    case False
    with walk_rewriteFirst(1)[of "resolveCallback state" root, OF resolveCallback_regions]
    have "\<forall>m. rewriteFirst (resolveCallback state)
            (length (snd (snd (walk (resolveCallback state) root))) + m) root =
          (m, fst (snd (walk (resolveCallback state) root)))"
      by simp
    from this[rule_format, of 0] show ?thesis by simp
  qed
  then show "fst (snd (insertTensorCopies root state)) =
      snd (rewriteFirst (resolveCallback state)
             (length (snd (snd (insertTensorCopies root state)))) root)"
    by (simp add: insertTensorCopies_eq)
qed

theorem fail_fast_witness:
  "fst (insertTensorCopies exModule (exState True)) = Failure \<and>
   resolutionFails (exState True) exConflict \<and>
   exConflict \<in> set (snd (snd (insertTensorCopies exModule (exState True)))) \<and>
   snd (snd (insertTensorCopies exModule (exState True))) =
     [exModule, exFunc, exAlloc, exConflict] \<and>
   exYielded \<in> set (preorder exModule) \<and>
   exYielded \<notin> set (snd (snd (insertTensorCopies exModule (exState True)))) \<and>
   snd (rewriteFirst (resolveCallback (exState True)) 4 exModule) =
     fst (snd (insertTensorCopies exModule (exState True)))"
proof -
  have f: "resolutionFails (exState True) exConflict"
    by (simp add: ex_defs eval_defs)
  have n: "\<not> resolutionFails (exState True) exModule"
     "\<not> resolutionFails (exState True) exFunc"
     "\<not> resolutionFails (exState True) exAlloc"
    by (simp_all add: ex_defs eval_defs)
  have d: "exYielded \<noteq> exModule" "exYielded \<noteq> exFunc" "exYielded \<noteq> exAlloc"
    "exYielded \<noteq> exConflict"
    by (simp_all add: ex_defs)
  from fail_fast[of exModule "exState True"] f n d show ?thesis
    by (simp add: ex_bad_preorder eval_nat_numeral)
qed

section \<open>Operations that do not take part\<close>

text \<open>
  Claim C6. On an operation that does not implement the interface the callback returns
  a skip, inserts nothing and leaves the operation as it is. The walk then enters its
  regions: its result is that of walking the regions, and the operations visited are the
  operation itself followed by the nested operations in pre-order, up to the first whose
  resolution fails. The walk of the operation is interrupted only when the resolution of
  a nested operation fails; when it is not interrupted, every nested operation has been
  visited.
\<close>

theorem non_bufferizable_skipped:
  assumes "dynCastBufferizableOp (getOptions state) op = None"
  shows "resolveCallback state op = (Skip, [], op) \<and>
         walk (resolveCallback state) op =
           (case walk_regions (resolveCallback state) (opRegions op) of
              (r, rs', seen) \<Rightarrow> (r, [setRegions op rs'], op # seen)) \<and>
         snd (snd (walk (resolveCallback state) op)) =
           op # upToFirst (resolutionFails state) (preorder_regions (opRegions op)) \<and>
         (fst (walk (resolveCallback state) op) = Interrupt \<longleftrightarrow>
            (\<exists>x\<in>set (preorder_regions (opRegions op)). resolutionFails state x)) \<and>
         (fst (walk (resolveCallback state) op) \<noteq> Interrupt \<longrightarrow>
            snd (snd (walk (resolveCallback state) op)) =
              op # preorder_regions (opRegions op))"
proof -
  have cb: "resolveCallback state op = (Skip, [], op)"
    using assms by (simp add: resolveCallback_def)
  have w: "walk (resolveCallback state) op =
           (case walk_regions (resolveCallback state) (opRegions op) of
              (r, rs', seen) \<Rightarrow> (r, [setRegions op rs'], op # seen))"
    using cb by (cases op) (simp split: prod.splits)
  have "snd (snd (walk (resolveCallback state) op)) =
          op # snd (snd (walk_regions (resolveCallback state) (opRegions op)))"
       "fst (walk (resolveCallback state) op) =
          fst (walk_regions (resolveCallback state) (opRegions op))"
    by (simp_all add: w split: prod.splits)
  with cb w show ?thesis
    using walk_seen_result(2)[of "resolveCallback state" "opRegions op"]
    by (simp add: resolveCallback_interrupts upToFirst_none)
qed

theorem non_bufferizable_skipped_witness:
  "dynCastBufferizableOp (getOptions (exState True)) exGoodFunc = None \<and>
   resolveCallback (exState True) exGoodFunc = (Skip, [], exGoodFunc) \<and>
   snd (snd (walk (resolveCallback (exState True)) exGoodFunc)) =
     [exGoodFunc, exAlloc, exYielded] \<and>
   fst (walk (resolveCallback (exState True)) exGoodFunc) \<noteq> Interrupt"
proof -
  have h: "dynCastBufferizableOp (getOptions (exState True)) exGoodFunc = None"
    by (simp add: ex_defs)
  have n: "\<not> resolutionFails (exState True) exAlloc"
    "\<not> resolutionFails (exState True) exYielded"
    by (simp_all add: ex_defs eval_defs)
  have p: "preorder_regions (opRegions exGoodFunc) = [exAlloc, exYielded]"
    by (simp add: ex_defs)
  have u: "upToFirst (resolutionFails (exState True)) [exAlloc, exYielded] = [exAlloc, exYielded]"
    using n by simp
  have e: "\<not> (\<exists>x\<in>set [exAlloc, exYielded]. resolutionFails (exState True) x)"
    using n by simp
  note t = non_bufferizable_skipped[OF h, unfolded p u]
  from t e have "fst (walk (resolveCallback (exState True)) exGoodFunc) \<noteq> Interrupt"
    by blast
  with t h show ?thesis
    by blast
qed

section \<open>The options-based entry point\<close>

text \<open>
  Claim C7. With \<open>testAnalysisOnly\<close> set and a successful analysis, the options-based
  entry point reports success with the IR as the analysis left it, and the callback is
  invoked on no operation.
\<close>

theorem analysis_only_returns_after_analysis:
  assumes "testAnalysisOnly options"
    and "runAnalysis ext op options (OneShotAnalysisState ext op options) = (res, op', state')"
    and "\<not> failed res"
  shows "insertTensorCopiesOptions ext op options = (Success, [op'], [])"
  using assms by (simp add: insertTensorCopiesOptions_def Let_def)

theorem analysis_only_returns_after_analysis_witness:
  "testAnalysisOnly (exOptions True True True) \<and>
   runAnalysis (exExt True) exGoodModule (exOptions True True True)
     (OneShotAnalysisState (exExt True) exGoodModule (exOptions True True True)) =
     (Success, exGoodModule,
      \<lparr>getOptions = exOptions True True True,
         isTensorYielded = (\<lambda>r. getOwner r = 5), aliasInfo = ()\<rparr>) \<and>
   \<not> failed Success \<and>
   insertTensorCopiesOptions (exExt True) exGoodModule (exOptions True True True) =
     (Success, [exGoodModule], [])"
proof -
  have h1: "testAnalysisOnly (exOptions True True True)"
    by (simp add: exOptions_def)
  have h2: "runAnalysis (exExt True) exGoodModule (exOptions True True True)
     (OneShotAnalysisState (exExt True) exGoodModule (exOptions True True True)) =
     (Success, exGoodModule,
      \<lparr>getOptions = exOptions True True True,
         isTensorYielded = (\<lambda>r. getOwner r = 5), aliasInfo = ()\<rparr>)"
    by (simp add: runAnalysis_def exExt_def failure_def exGoodModule_def exOptions_def)
  have h3: "\<not> failed Success"
    by (simp add: failed_def)
  from analysis_only_returns_after_analysis[OF h1 h2 h3] h1 h2 h3 show ?thesis
    by simp
qed

text \<open>
  Claim C8. When the analysis fails, the module analysis of the root cast to a module if
  \<open>bufferizeFunctionBoundaries\<close> is set and the analysis of the operation otherwise, the
  options-based entry point reports failure with the IR as the analysis left it, and the
  callback is invoked on no operation.
\<close>

theorem analysis_failure_propagates:
  "(bufferizeFunctionBoundaries options \<and>
    failed (fst (analyzeModuleOp ext (castModuleOp ext op)
                   (OneShotAnalysisState ext op options))) \<longrightarrow>
      insertTensorCopiesOptions ext op options =
        (Failure,
         [fst (snd (analyzeModuleOp ext (castModuleOp ext op)
                      (OneShotAnalysisState ext op options)))],
         [])) \<and>
   (\<not> bufferizeFunctionBoundaries options \<and>
    failed (fst (analyzeOp ext op (OneShotAnalysisState ext op options))) \<longrightarrow>
      insertTensorCopiesOptions ext op options =
        (Failure, [fst (snd (analyzeOp ext op (OneShotAnalysisState ext op options)))], []))"
  by (auto simp: insertTensorCopiesOptions_def runAnalysis_def Let_def split: prod.splits)

theorem analysis_failure_propagates_witness:
  "bufferizeFunctionBoundaries (exOptions True True False) \<and>
   failed (fst (analyzeModuleOp (exExt False) (castModuleOp (exExt False) exModule)
                  (OneShotAnalysisState (exExt False) exModule (exOptions True True False)))) \<and>
   insertTensorCopiesOptions (exExt False) exModule (exOptions True True False) =
     (Failure, [exModule], []) \<and>
   \<not> bufferizeFunctionBoundaries (exOptions False True False) \<and>
   failed (fst (analyzeOp (exExt False) exFunc
                  (OneShotAnalysisState (exExt False) exFunc (exOptions False True False)))) \<and>
   insertTensorCopiesOptions (exExt False) exFunc (exOptions False True False) =
     (Failure, [exFunc], [])"
proof -
  have m1: "bufferizeFunctionBoundaries (exOptions True True False)"
    by (simp add: exOptions_def)
  have m3: "failed (fst (analyzeModuleOp (exExt False) (castModuleOp (exExt False) exModule)
                  (OneShotAnalysisState (exExt False) exModule (exOptions True True False))))"
    by (simp add: exExt_def failed_def failure_def)
  have m4: "fst (snd (analyzeModuleOp (exExt False) (castModuleOp (exExt False) exModule)
                  (OneShotAnalysisState (exExt False) exModule (exOptions True True False)))) =
            exModule"
    by (simp add: exExt_def)
  have o1: "\<not> bufferizeFunctionBoundaries (exOptions False True False)"
    by (simp add: exOptions_def)
  have o3: "failed (fst (analyzeOp (exExt False) exFunc
                  (OneShotAnalysisState (exExt False) exFunc (exOptions False True False))))"
    by (simp add: exExt_def failed_def failure_def)
  have o4: "fst (snd (analyzeOp (exExt False) exFunc
                  (OneShotAnalysisState (exExt False) exFunc (exOptions False True False)))) =
            exFunc"
    by (simp add: exExt_def)
  from analysis_failure_propagates[of "exOptions True True False" "exExt False" exModule]
    analysis_failure_propagates[of "exOptions False True False" "exExt False" exFunc]
    m1 m3 m4 o1 o3 o4
  show ?thesis by simp
qed

text \<open>
  Claim C9. After a successful analysis and with \<open>testAnalysisOnly\<close> off, the
  options-based entry point returns what the state-based entry point returns on the
  operation and the analysis state the analysis produced: same result, same IR, same
  visits.
\<close>

theorem options_entry_shares_resolution:
  assumes "runAnalysis ext op options (OneShotAnalysisState ext op options) = (res, op', state')"
    and "\<not> failed res"
    and "\<not> testAnalysisOnly options"
  shows "insertTensorCopiesOptions ext op options = insertTensorCopies op' state'"
  using assms by (simp add: insertTensorCopiesOptions_def Let_def)

theorem options_entry_shares_resolution_witness:
  "runAnalysis (exExt True) exGoodModule (exOptions False True False)
     (OneShotAnalysisState (exExt True) exGoodModule (exOptions False True False)) =
     (Success, exGoodModule, exState True) \<and>
   \<not> failed Success \<and>
   \<not> testAnalysisOnly (exOptions False True False) \<and>
   insertTensorCopiesOptions (exExt True) exGoodModule (exOptions False True False) =
     insertTensorCopies exGoodModule (exState True) \<and>
   fst (insertTensorCopies exGoodModule (exState True)) = Success"
proof -
  have h1: "runAnalysis (exExt True) exGoodModule (exOptions False True False)
     (OneShotAnalysisState (exExt True) exGoodModule (exOptions False True False)) =
     (Success, exGoodModule, exState True)"
    by (simp add: runAnalysis_def exExt_def failure_def exOptions_def exState_def)
  have h2: "\<not> failed Success"
    by (simp add: failed_def)
  have h3: "\<not> testAnalysisOnly (exOptions False True False)"
    by (simp add: exOptions_def)
  from options_entry_shares_resolution[OF h1 h2 h3] h1 h2 h3 show ?thesis
    by (simp add: ex_good_run)
qed

end
